theory Spec2Isabelle
  imports Complex_Main
begin

section \<open>Numbers, constants and tables of the wager engine (src/game.js)\<close>

text \<open>
  JavaScript has one numeric type. The model uses \<open>nat\<close> for counters and array
  indices, \<open>int\<close> for the integer-valued basis-point quantities, and \<open>real\<close> for
  amounts and ratios. Arithmetic on \<open>real\<close> is exact: the rounding of IEEE doubles is not
  part of the model. A value of type \<open>jsnum\<close> is a number that may have become
  non-finite: \<open>None\<close> stands for NaN (an \<open>undefined\<close> table entry entering arithmetic)
  or for the infinite result of a division by zero.
\<close>

type_synonym jsnum = "real option"

definition jsdiv :: "real \<Rightarrow> real \<Rightarrow> jsnum" where
  "jsdiv x y = (if y = 0 then None else Some (x / y))"

definition jsmul :: "jsnum \<Rightarrow> jsnum \<Rightarrow> jsnum" where
  "jsmul a b = (case a of None \<Rightarrow> None | Some x \<Rightarrow> (case b of None \<Rightarrow> None | Some y \<Rightarrow> Some (x * y)))"

definition jsadd :: "jsnum \<Rightarrow> jsnum \<Rightarrow> jsnum" where
  "jsadd a b = (case a of None \<Rightarrow> None | Some x \<Rightarrow> (case b of None \<Rightarrow> None | Some y \<Rightarrow> Some (x + y)))"

definition jssub :: "jsnum \<Rightarrow> jsnum \<Rightarrow> jsnum" where
  "jssub a b = (case a of None \<Rightarrow> None | Some x \<Rightarrow> (case b of None \<Rightarrow> None | Some y \<Rightarrow> Some (x - y)))"

text \<open>Comparisons of a number with a finite number: false when the left side is NaN.\<close>

definition jslt :: "jsnum \<Rightarrow> real \<Rightarrow> bool" where
  "jslt a y = (case a of None \<Rightarrow> False | Some x \<Rightarrow> x < y)"

definition jsgt :: "jsnum \<Rightarrow> real \<Rightarrow> bool" where
  "jsgt a y = (case a of None \<Rightarrow> False | Some x \<Rightarrow> x > y)"

definition jsge :: "jsnum \<Rightarrow> real \<Rightarrow> bool" where
  "jsge a y = (case a of None \<Rightarrow> False | Some x \<Rightarrow> x \<ge> y)"

text \<open>The remainder operator \<open>%\<close> of JavaScript on integers: the sign follows the dividend.\<close>

definition jsrem :: "int \<Rightarrow> int \<Rightarrow> int" where
  "jsrem a b = sgn a * (\<bar>a\<bar> mod \<bar>b\<bar>)"

definition BUCKET_WEIGHTS :: "int list" where
  "BUCKET_WEIGHTS = [10, 10, 10, 10, 9, 9, 9, 8]"

definition TOTAL_WEIGHT :: int where
  "TOTAL_WEIGHT = 75"

definition FULL_TICKET_PAYOUTS_BPS :: "int list" where
  "FULL_TICKET_PAYOUTS_BPS = [0, 0, 189, 500, 1778, 6667, 31100, 155600, 355600]"

definition JACKPOT_MULTIPLIER_BPS :: int where
  "JACKPOT_MULTIPLIER_BPS = 10000000"

definition SPECIAL_MATCH_MIN_MULTIPLIER_BPS :: int where
  "SPECIAL_MATCH_MIN_MULTIPLIER_BPS = 400"

definition CURRENCY_WWXRP :: int where
  "CURRENCY_WWXRP = 3"

definition MIN_SCORE :: int where "MIN_SCORE = 0"
definition MID_SCORE :: int where "MID_SCORE = 7500"
definition HIGH_SCORE :: int where "HIGH_SCORE = 25500"
definition MAX_SCORE :: int where "MAX_SCORE = 35500"

definition ROI_MIN :: int where "ROI_MIN = 9000"
definition ROI_MID :: int where "ROI_MID = 9500"
definition ROI_HIGH :: int where "ROI_HIGH = 9950"
definition ROI_MAX :: int where "ROI_MAX = 9990"

definition ETH_ROI_BONUS_BPS :: int where "ETH_ROI_BONUS_BPS = 500"
definition WWXRP_HIGH_ROI_MIN :: int where "WWXRP_HIGH_ROI_MIN = 9000"
definition WWXRP_HIGH_ROI_MAX :: int where "WWXRP_HIGH_ROI_MAX = 10990"
definition WWXRP_BONUS_FACTOR_SCALE :: int where "WWXRP_BONUS_FACTOR_SCALE = 1000000"
definition WWXRP_BONUS_FACTOR_BUCKET5 :: int where "WWXRP_BONUS_FACTOR_BUCKET5 = 144136"
definition WWXRP_BONUS_FACTOR_BUCKET6 :: int where "WWXRP_BONUS_FACTOR_BUCKET6 = 900848"
definition WWXRP_BONUS_FACTOR_BUCKET7 :: int where "WWXRP_BONUS_FACTOR_BUCKET7 = 4206141"
definition WWXRP_BONUS_FACTOR_BUCKET8 :: int where "WWXRP_BONUS_FACTOR_BUCKET8 = 97914359"
definition WWXRP_BONUS_FACTOR_BUCKET9 :: int where "WWXRP_BONUS_FACTOR_BUCKET9 = 344701627"

definition FULL_TICKET_NON_WWXRP_SCALE :: real where
  "FULL_TICKET_NON_WWXRP_SCALE = 87147 / 100000"

section \<open>Tickets\<close>

text \<open>
  A trait carries the quadrant index and the two categories; a ticket is the array of
  traits and the special marker. The categories of a player ticket are integers (the
  route handler's \<open>isValidTrait\<close> admits nothing else), possibly out of range. The
  special marker is the field after the coercion \<open>Number(ticket.special)\<close>: any
  number, or NaN (\<open>None\<close>) when the field is absent or not numeric.
\<close>

record trait =
  quadrant :: int
  color :: int
  symbol :: int

record ticket =
  traits :: "trait list"
  special :: jsnum

text \<open>Exceptions the modelled code can raise.\<close>

datatype exn = TypeError | SqliteError

text \<open>\<open>xs[i]\<close> on an array: \<open>None\<close> is \<open>undefined\<close>.\<close>

definition elemAt :: "'a list \<Rightarrow> nat \<Rightarrow> 'a option" where
  "elemAt xs i = (if i < length xs then Some (xs ! i) else None)"

text \<open>\<open>weights[c]\<close> for an integer \<open>c\<close>: \<open>None\<close> is \<open>undefined\<close>.\<close>

definition weightAt :: "int list \<Rightarrow> int \<Rightarrow> int option" where
  "weightAt ws c = (if 0 \<le> c \<and> c < int (length ws) then Some (ws ! nat c) else None)"

section \<open>Random outcome generator\<close>

text \<open>
  The cryptographic source is an explicit stream of draws, threaded through the
  generator: \<open>randomInt bound\<close> consumes the next draw and yields a value below
  \<open>bound\<close> (the engine calls it with 75, 3 and 100 only).
\<close>

type_synonym rng = "nat \<Rightarrow> nat"

definition randomInt :: "nat \<Rightarrow> rng \<Rightarrow> nat \<times> rng" where
  "randomInt bound g = (g 0 mod bound, (\<lambda>i. g (Suc i)))"

text \<open>
  The loop of \<open>weightedBucket\<close>: \<open>i\<close> is the loop index, \<open>cumulative\<close> the running sum
  before the iteration, the list holds the weights from index \<open>i\<close> on. Leaving the loop
  without a hit returns 7.
\<close>

fun weightedBucket_loop :: "int \<Rightarrow> int \<Rightarrow> nat \<Rightarrow> int list \<Rightarrow> nat" where
  "weightedBucket_loop v cumulative i [] = 7"
| "weightedBucket_loop v cumulative i (w # ws) =
     (if v < cumulative + w then i else weightedBucket_loop v (cumulative + w) (Suc i) ws)"

definition weightedBucket :: "int \<Rightarrow> nat" where
  "weightedBucket randomValue =
     (let v = jsrem randomValue TOTAL_WEIGHT in weightedBucket_loop v 0 0 BUCKET_WEIGHTS)"

definition randomWeightedBucket :: "rng \<Rightarrow> nat \<times> rng" where
  "randomWeightedBucket g =
     (let (r, g') = randomInt (nat TOTAL_WEIGHT) g in (weightedBucket (int r), g'))"

text \<open>One element of the array literal in \<open>generateRandomTicket\<close>: color first, then symbol.\<close>

definition randomTrait :: "int \<Rightarrow> rng \<Rightarrow> trait \<times> rng" where
  "randomTrait q g =
     (let (c, g1) = randomWeightedBucket g;
          (s, g2) = randomWeightedBucket g1
      in (\<lparr>quadrant = q, color = int c, symbol = int s\<rparr>, g2))"

definition generateRandomTicket :: "bool \<Rightarrow> rng \<Rightarrow> ticket \<times> rng" where
  "generateRandomTicket forPlayer g =
     (let (t0, g0) = randomTrait 0 g;
          (t1, g1) = randomTrait 1 g0;
          (t2, g2) = randomTrait 2 g1;
          (t3, g3) = randomTrait 3 g2
      in if forPlayer then
           (let (r, g4) = randomInt 3 g3
            in (\<lparr>traits = [t0, t1, t2, t3], special = Some (1 + real r)\<rparr>, g4))
         else
           (let (roll, g4) = randomInt 100 g3;
                sp = (if roll = 0 then 1 else if roll = 1 then 2 else if roll = 2 then 3 else 0)
            in (\<lparr>traits = [t0, t1, t2, t3], special = Some sp\<rparr>, g4)))"

text \<open>The cumulative weight up to and including category \<open>k\<close>.\<close>

definition cumulativeWeight :: "nat \<Rightarrow> int" where
  "cumulativeWeight k = sum_list (take (Suc k) BUCKET_WEIGHTS)"

section \<open>Match scorer\<close>

text \<open>
  The loop of \<open>countMatches\<close> over the quadrant indices; reading \<open>.color\<close> of a missing
  trait raises a TypeError.
\<close>

fun countMatches_loop :: "trait list \<Rightarrow> trait list \<Rightarrow> nat list \<Rightarrow> nat \<Rightarrow> exn + nat" where
  "countMatches_loop ps rs [] matches = Inr matches"
| "countMatches_loop ps rs (q # qs) matches =
     (case elemAt ps q of
        None \<Rightarrow> Inl TypeError
      | Some p \<Rightarrow>
          (case elemAt rs q of
             None \<Rightarrow> Inl TypeError
           | Some r \<Rightarrow>
               countMatches_loop ps rs qs
                 (matches + (if color p = color r then 1 else 0)
                          + (if symbol p = symbol r then 1 else 0))))"

definition countMatches :: "ticket \<Rightarrow> ticket \<Rightarrow> exn + nat" where
  "countMatches playerTicket resultTicket =
     countMatches_loop (traits playerTicket) (traits resultTicket) [0 ..< 4] 0"

text \<open>
  \<open>playerSpecial !== 0 && playerSpecial === resultSpecial\<close>: NaN is different from 0 and
  strictly equal to nothing, itself included.
\<close>

definition specialsMatch :: "jsnum \<Rightarrow> jsnum \<Rightarrow> bool" where
  "specialsMatch playerSpecial resultSpecial =
     (case playerSpecial of
        None \<Rightarrow> False
      | Some p \<Rightarrow> p \<noteq> 0 \<and> resultSpecial = Some p)"

section \<open>Return curve engine\<close>

definition calculateRoi :: "int \<Rightarrow> int \<Rightarrow> int" where
  "calculateRoi activityScore currency =
     (if activityScore \<le> MIN_SCORE then ROI_MIN
      else if activityScore \<le> MID_SCORE then
        (let progress = real_of_int activityScore / real_of_int MID_SCORE;
             quadratic = progress * progress
         in ROI_MIN + \<lfloor>real_of_int (ROI_MID - ROI_MIN) * quadratic\<rfloor>)
      else if activityScore \<le> HIGH_SCORE then
        (let progress = real_of_int (activityScore - MID_SCORE) / real_of_int (HIGH_SCORE - MID_SCORE)
         in ROI_MID + \<lfloor>real_of_int (ROI_HIGH - ROI_MID) * progress\<rfloor>)
      else if activityScore \<le> MAX_SCORE then
        (let progress = real_of_int (activityScore - HIGH_SCORE) / real_of_int (MAX_SCORE - HIGH_SCORE)
         in ROI_HIGH + \<lfloor>real_of_int (ROI_MAX - ROI_HIGH) * progress\<rfloor>)
      else ROI_MAX)"

text \<open>
  The same curve with every intermediate floating-point result passed through a
  rounding function \<open>rnd\<close>; \<open>calculateRoi\<close> is the instance with exact arithmetic.
  The integer operands and the final integer sum are exact in double precision.
\<close>

definition calculateRoi_rounded :: "(real \<Rightarrow> real) \<Rightarrow> int \<Rightarrow> int \<Rightarrow> int" where
  "calculateRoi_rounded rnd activityScore currency =
     (if activityScore \<le> MIN_SCORE then ROI_MIN
      else if activityScore \<le> MID_SCORE then
        (let progress = rnd (real_of_int activityScore / real_of_int MID_SCORE);
             quadratic = rnd (progress * progress)
         in ROI_MIN + \<lfloor>rnd (real_of_int (ROI_MID - ROI_MIN) * quadratic)\<rfloor>)
      else if activityScore \<le> HIGH_SCORE then
        (let progress = rnd (real_of_int (activityScore - MID_SCORE) / real_of_int (HIGH_SCORE - MID_SCORE))
         in ROI_MID + \<lfloor>rnd (real_of_int (ROI_HIGH - ROI_MID) * progress)\<rfloor>)
      else if activityScore \<le> MAX_SCORE then
        (let progress = rnd (real_of_int (activityScore - HIGH_SCORE) / real_of_int (MAX_SCORE - HIGH_SCORE))
         in ROI_HIGH + \<lfloor>rnd (real_of_int (ROI_MAX - ROI_HIGH) * progress)\<rfloor>)
      else ROI_MAX)"

definition calculateWwxrpHighRoi :: "int \<Rightarrow> int" where
  "calculateWwxrpHighRoi activityScore =
     (if activityScore \<le> MIN_SCORE then WWXRP_HIGH_ROI_MIN
      else if activityScore \<ge> MAX_SCORE then WWXRP_HIGH_ROI_MAX
      else (let progress = real_of_int activityScore / real_of_int MAX_SCORE
            in WWXRP_HIGH_ROI_MIN
               + \<lfloor>real_of_int (WWXRP_HIGH_ROI_MAX - WWXRP_HIGH_ROI_MIN) * progress\<rfloor>))"

definition bonusBucket :: "nat \<Rightarrow> bool \<Rightarrow> nat" where
  "bonusBucket matches specialMatch =
     (if matches < 5 then 0
      else if matches = 8 then (if specialMatch then 9 else 8)
      else matches)"

definition bonusRoiForBucket :: "nat \<Rightarrow> int \<Rightarrow> int" where
  "bonusRoiForBucket bucket bonusRoiBps =
     (let factor = (if bucket = 5 then WWXRP_BONUS_FACTOR_BUCKET5
                    else if bucket = 6 then WWXRP_BONUS_FACTOR_BUCKET6
                    else if bucket = 7 then WWXRP_BONUS_FACTOR_BUCKET7
                    else if bucket = 8 then WWXRP_BONUS_FACTOR_BUCKET8
                    else if bucket = 9 then WWXRP_BONUS_FACTOR_BUCKET9
                    else 0)
      in if factor = 0 then 0
         else \<lfloor>real_of_int (bonusRoiBps * factor) / real_of_int WWXRP_BONUS_FACTOR_SCALE\<rfloor>)"

text \<open>
  Lines 205-218 of \<open>spinFullTicket\<close>: the payout multiplier and the jackpot flag. The
  match count indexes the payout table; it comes from \<open>countMatches\<close> and is at most 8
  (lemma \<open>countMatches_le_8\<close> below), so the index is always in range.
\<close>

definition payoutMultiplier :: "nat \<Rightarrow> bool \<Rightarrow> int \<times> bool" where
  "payoutMultiplier matches hasSpecialMatch =
     (if matches = 8 \<and> hasSpecialMatch then (JACKPOT_MULTIPLIER_BPS, True)
      else if hasSpecialMatch then
        (let baseTier = min (matches + 1) 8
         in (max (FULL_TICKET_PAYOUTS_BPS ! baseTier) SPECIAL_MATCH_MIN_MULTIPLIER_BPS, False))
      else (FULL_TICKET_PAYOUTS_BPS ! matches, False))"

text \<open>Lines 220-227 of \<open>spinFullTicket\<close>: the effective ROI after the bonus adjustment.\<close>

definition effectiveRoiFor :: "int \<Rightarrow> int \<Rightarrow> int \<Rightarrow> nat \<Rightarrow> int" where
  "effectiveRoiFor currency roiBps highRoi bucket =
     (if currency = CURRENCY_WWXRP \<and> highRoi > roiBps \<and> bucket \<noteq> 0 then
        (let bonusRoi = highRoi - roiBps in roiBps + bonusRoiForBucket bucket bonusRoi)
      else if currency = 0 \<and> bucket \<noteq> 0 then roiBps + bonusRoiForBucket bucket ETH_ROI_BONUS_BPS
      else roiBps)"

section \<open>EV normalizer\<close>

text \<open>
  Both formulations read the weight table; here the table is a parameter, and the
  engine's functions instantiate it with \<open>BUCKET_WEIGHTS\<close>. The total weight stays the
  constant 75 of the source.

  The current formulation (src/game.js) depends on the player ticket only. The loop
  multiplies \<open>totalWeightProduct\<close> by the two weight ratios of every trait; an
  \<open>undefined\<close> weight makes the product NaN.
\<close>

definition weightRatio :: "int list \<Rightarrow> int \<Rightarrow> jsnum" where
  "weightRatio ws c =
     (case weightAt ws c of
        None \<Rightarrow> None
      | Some w \<Rightarrow> Some (real_of_int w / real_of_int TOTAL_WEIGHT))"

fun evNorm_loop :: "int list \<Rightarrow> trait list \<Rightarrow> jsnum \<Rightarrow> jsnum" where
  "evNorm_loop ws [] totalWeightProduct = totalWeightProduct"
| "evNorm_loop ws (t # ts) totalWeightProduct =
     evNorm_loop ws ts
       (jsmul (jsmul totalWeightProduct (weightRatio ws (color t))) (weightRatio ws (symbol t)))"

definition calculateEvNormalization_on :: "int list \<Rightarrow> ticket \<Rightarrow> jsnum" where
  "calculateEvNormalization_on ws playerTicket =
     (let uniformWeightProduct = (10 / real_of_int TOTAL_WEIGHT) ^ 8
      in case evNorm_loop ws (traits playerTicket) (Some 1) of
           None \<Rightarrow> None
         | Some totalWeightProduct \<Rightarrow> jsdiv uniformWeightProduct totalWeightProduct)"

definition calculateEvNormalization :: "ticket \<Rightarrow> jsnum" where
  "calculateEvNormalization playerTicket = calculateEvNormalization_on BUCKET_WEIGHTS playerTicket"

text \<open>
  The earlier, per-outcome formulation (src/unnamed/part_000, also named
  \<open>calculateEvNormalization\<close> there). The numerator is a product of the constants
  100, 1300 and 4225; the denominator is NaN (\<open>None\<close>) as soon as a weight is
  \<open>undefined\<close>.
\<close>

definition perOutcomeDen :: "int list \<Rightarrow> trait \<Rightarrow> trait \<Rightarrow> int option" where
  "perOutcomeDen ws p r =
     (case weightAt ws (color p) of
        None \<Rightarrow> None
      | Some wC \<Rightarrow>
          (case weightAt ws (symbol p) of
             None \<Rightarrow> None
           | Some wS \<Rightarrow>
               (let colorMatch = (color p = color r);
                    symbolMatch = (symbol p = symbol r)
                in if colorMatch \<and> symbolMatch then Some (wC * wS)
                   else if colorMatch \<or> symbolMatch then Some (75 * (wC + wS) - 2 * wC * wS)
                   else Some ((TOTAL_WEIGHT - wC) * (TOTAL_WEIGHT - wS)))))"

definition perOutcomeNum :: "trait \<Rightarrow> trait \<Rightarrow> int" where
  "perOutcomeNum p r =
     (let colorMatch = (color p = color r);
          symbolMatch = (symbol p = symbol r)
      in if colorMatch \<and> symbolMatch then 100
         else if colorMatch \<or> symbolMatch then 1300
         else 4225)"

fun perOutcome_loop ::
  "int list \<Rightarrow> trait list \<Rightarrow> trait list \<Rightarrow> nat list \<Rightarrow> int \<Rightarrow> int option \<Rightarrow> exn + (int \<times> int option)" where
  "perOutcome_loop ws ps rs [] num den = Inr (num, den)"
| "perOutcome_loop ws ps rs (q # qs) num den =
     (case elemAt ps q of
        None \<Rightarrow> Inl TypeError
      | Some p \<Rightarrow>
          (case elemAt rs q of
             None \<Rightarrow> Inl TypeError
           | Some r \<Rightarrow>
               perOutcome_loop ws ps rs qs (num * perOutcomeNum p r)
                 (case den of
                    None \<Rightarrow> None
                  | Some d \<Rightarrow> (case perOutcomeDen ws p r of None \<Rightarrow> None | Some f \<Rightarrow> Some (d * f)))))"

definition calculateEvNormalization_perOutcome_on :: "int list \<Rightarrow> ticket \<Rightarrow> ticket \<Rightarrow> exn + jsnum" where
  "calculateEvNormalization_perOutcome_on ws playerTicket resultTicket =
     (case perOutcome_loop ws (traits playerTicket) (traits resultTicket) [0 ..< 4] 1 (Some 1) of
        Inl e \<Rightarrow> Inl e
      | Inr (num, den) \<Rightarrow>
          Inr (case den of None \<Rightarrow> None | Some d \<Rightarrow> jsdiv (real_of_int num) (real_of_int d)))"

definition calculateEvNormalization_perOutcome :: "ticket \<Rightarrow> ticket \<Rightarrow> exn + jsnum" where
  "calculateEvNormalization_perOutcome playerTicket resultTicket =
     calculateEvNormalization_perOutcome_on BUCKET_WEIGHTS playerTicket resultTicket"

section \<open>Settlement computation (\<open>spinFullTicket\<close>, src/game.js)\<close>

text \<open>
  The player snapshot as \<open>serializePlayer\<close> builds it, with the columns the settlement
  reads or writes; the identity, referral and nonce columns are carried along unchanged
  by the code and are left out. The balance is a \<open>jsnum\<close>, since the snapshot returned
  by \<open>spinFullTicket\<close> can hold NaN.
\<close>

record player_rec =
  id_col :: nat
  eth_address :: string
  balance_wwxrp :: jsnum
  activity_score_bps :: int

text \<open>
  One entry of \<open>spin.results\<close> and the \<open>spin\<close> object. The \<open>math\<close> field, a
  locale-formatted display text derived from the other fields, and the constant
  \<open>lootboxPrize: null\<close> are left out.
\<close>

record spin_result =
  matches :: nat
  specialMatch :: bool
  payoutMultiplierBps :: int
  payout :: jsnum
  playerTicket :: ticket
  resultTicket :: ticket
  isJackpot :: bool

record spin_rec =
  mode :: nat
  results :: "spin_result list"
  totalBet :: real
  totalPayout :: jsnum
  netResult :: jsnum
  consolationPrize :: int
  hasJackpot :: bool
  currency :: int
  amountPerTicket :: real
  ticketCount :: nat

record settlement =
  player :: player_rec
  spin :: spin_rec

text \<open>The \<open>ticket.traits.map\<close> of \<open>spinFullTicket\<close>: the quadrant becomes the array index.\<close>

definition normalizeTraits :: "trait list \<Rightarrow> trait list" where
  "normalizeTraits ts =
     map (\<lambda>(idx, t). \<lparr>quadrant = int idx, color = color t, symbol = symbol t\<rparr>)
         (zip [0 ..< length ts] ts)"

text \<open>
  \<open>spinFullTicket\<close> returns \<open>Inr None\<close> for \<open>null\<close>, \<open>Inr (Some r)\<close> for a settlement
  and \<open>Inl e\<close> when it raises. The random source is an argument; the draws it consumes
  are those of \<open>generateRandomTicket(false)\<close>.
\<close>

definition spinFullTicket ::
  "player_rec \<Rightarrow> ticket \<Rightarrow> real \<Rightarrow> int \<Rightarrow> rng \<Rightarrow> exn + settlement option" where
  "spinFullTicket plr tkt amount cur g =
     (let balance = balance_wwxrp plr in
      if jslt balance amount then Inr None
      else
        let playerSpecial = special tkt in
        if jslt playerSpecial 1 \<or> jsgt playerSpecial 3 then Inr None
        else
          let activityScore = min (activity_score_bps plr + 100) MAX_SCORE;
              roiBps = calculateRoi activityScore cur;
              highRoi = (if cur = CURRENCY_WWXRP then calculateWwxrpHighRoi activityScore else 0);
              pTicket = \<lparr>traits = normalizeTraits (traits tkt), special = playerSpecial\<rparr>;
              rTicket = fst (generateRandomTicket False g)
          in case countMatches pTicket rTicket of
               Inl e \<Rightarrow> Inl e
             | Inr m \<Rightarrow>
                 let hasSpecialMatch = specialsMatch (special pTicket) (special rTicket);
                     (multiplierBps, jackpot) = payoutMultiplier m hasSpecialMatch;
                     bucket = bonusBucket m hasSpecialMatch;
                     effectiveRoi = effectiveRoiFor cur roiBps highRoi bucket;
                     evNorm = calculateEvNormalization pTicket;
                     payout0 = jsmul (Some (amount * real_of_int multiplierBps * real_of_int effectiveRoi
                                             / (100 * 10000))) evNorm;
                     pay = (if cur \<noteq> CURRENCY_WWXRP
                            then jsmul payout0 (Some FULL_TICKET_NON_WWXRP_SCALE) else payout0);
                     bet = amount;
                     net = jssub pay (Some bet)
                 in Inr (Some
                      \<lparr>player = plr\<lparr>balance_wwxrp := jsadd (jssub balance (Some bet)) pay,
                                     activity_score_bps := activityScore\<rparr>,
                       spin = \<lparr>mode = 1,
                               results = [\<lparr>matches = m, specialMatch = hasSpecialMatch,
                                           payoutMultiplierBps = multiplierBps, payout = pay,
                                           playerTicket = pTicket, resultTicket = rTicket,
                                           isJackpot = jackpot\<rparr>],
                               totalBet = bet, totalPayout = pay, netResult = net,
                               consolationPrize = 0, hasJackpot = jackpot, currency = cur,
                               amountPerTicket = amount, ticketCount = 1\<rparr>\<rparr>))"

section \<open>Ticket validation of the route handler (src/index.js)\<close>

definition isValidTrait :: "trait \<Rightarrow> bool" where
  "isValidTrait t =
     (quadrant t \<ge> 0 \<and> quadrant t < 4
      \<and> color t \<ge> 0 \<and> color t < 8
      \<and> symbol t \<ge> 0 \<and> symbol t < 8)"

text \<open>
  \<open>isValidTicket\<close> tests the field before any coercion: \<open>typeof ticket.special\<close> must
  be \<open>'number'\<close>. In a JSON request body such a field is a finite number, so a marker
  that coerces to NaN fails the test.
\<close>

definition isValidTicket :: "ticket \<Rightarrow> bool" where
  "isValidTicket tkt =
     (if length (traits tkt) \<noteq> 4 then False
      else if special tkt = None then False
      else if jslt (special tkt) 1 \<or> jsgt (special tkt) 3 then False
      else list_all isValidTrait (traits tkt))"

section \<open>The store and the settlement transaction (src/storage.js)\<close>

text \<open>
  The store holds the \<open>players\<close> table, keyed by the unique \<open>eth_address\<close>, and the
  append-only \<open>spins\<close> table in insertion order. Row ids and timestamps of \<open>spins\<close>
  are left out. The two ticket columns hold \<open>JSON.stringify\<close> of a ticket, or of the
  empty object when \<open>spin.results\<close> is empty; the model keeps the value that is
  serialized (\<open>None\<close> for the empty object).
\<close>

record spins_row =
  spins_player_id :: nat
  spins_bet_amount :: real
  spins_payout :: real
  spins_net :: real
  spins_matches :: nat
  spins_player_ticket :: "ticket option"
  spins_house_ticket :: "ticket option"

record db =
  players :: "string \<Rightarrow> player_rec option"
  spins :: "spins_row list"

datatype spin_response = Error string | Ok "player_rec option" spin_rec

definition serializePlayer :: "player_rec option \<Rightarrow> player_rec option" where
  "serializePlayer row =
     (case row of
        None \<Rightarrow> None
      | Some r \<Rightarrow> Some \<lparr>id_col = id_col r, eth_address = eth_address r,
                        balance_wwxrp = balance_wwxrp r,
                        activity_score_bps = activity_score_bps r\<rparr>)"

text \<open>
  The guarded \<open>UPDATE players SET balance_wwxrp = ?, activity_score_bps = ? WHERE
  eth_address = ? AND balance_wwxrp >= ?\<close>, returning the number of rows changed. NaN
  is bound as NULL, which the NOT NULL column rejects when a row is to be written.
\<close>

definition guardedUpdate :: "string \<Rightarrow> jsnum \<Rightarrow> int \<Rightarrow> real \<Rightarrow> db \<Rightarrow> exn + (nat \<times> db)" where
  "guardedUpdate address newBalance newScore bet d =
     (case players d address of
        None \<Rightarrow> Inr (0, d)
      | Some row \<Rightarrow>
          if jsge (balance_wwxrp row) bet then
            (case newBalance of
               None \<Rightarrow> Inl SqliteError
             | Some b \<Rightarrow>
                 Inr (1, d\<lparr>players := (players d)(address \<mapsto>
                             row\<lparr>balance_wwxrp := Some b, activity_score_bps := newScore\<rparr>)\<rparr>))
          else Inr (0, d))"

text \<open>The \<open>INSERT INTO spins\<close>; the three REAL columns are NOT NULL.\<close>

definition insertSpin ::
  "nat \<Rightarrow> real \<Rightarrow> jsnum \<Rightarrow> jsnum \<Rightarrow> nat \<Rightarrow> ticket option \<Rightarrow> ticket option \<Rightarrow> db \<Rightarrow> exn + db" where
  "insertSpin pid bet pay net m pt ht d =
     (case pay of
        None \<Rightarrow> Inl SqliteError
      | Some pv \<Rightarrow>
          (case net of
             None \<Rightarrow> Inl SqliteError
           | Some nv \<Rightarrow>
               Inr (d\<lparr>spins := spins d @
                       [\<lparr>spins_player_id = pid, spins_bet_amount = bet, spins_payout = pv,
                         spins_net = nv, spins_matches = m, spins_player_ticket = pt,
                         spins_house_ticket = ht\<rparr>]\<rparr>)))"

text \<open>\<open>spin.results?.[spin.results.length - 1]\<close>.\<close>

definition latestResult :: "spin_rec \<Rightarrow> spin_result option" where
  "latestResult s = (if results s = [] then None else Some (last (results s)))"

text \<open>
  \<open>atomicSpin\<close> runs its body as one transaction of the store: the result is the value
  returned (or the exception raised) and the store afterwards. An exception rolls the
  transaction back, so the store is the one before the call.
\<close>

definition atomicSpin ::
  "string \<Rightarrow> (player_rec \<Rightarrow> exn + settlement option) \<Rightarrow> db \<Rightarrow> (exn + spin_response) \<times> db" where
  "atomicSpin address spinFn d =
     (case serializePlayer (players d address) of
        None \<Rightarrow> (Inr (Error ''Player not found''), d)
      | Some plr \<Rightarrow>
          (case spinFn plr of
             Inl e \<Rightarrow> (Inl e, d)
           | Inr None \<Rightarrow> (Inr (Error ''Insufficient balance''), d)
           | Inr (Some result) \<Rightarrow>
               (case guardedUpdate address (balance_wwxrp (player result))
                       (activity_score_bps (player result)) (totalBet (spin result)) d of
                  Inl e \<Rightarrow> (Inl e, d)
                | Inr (changes, d1) \<Rightarrow>
                    if changes = 0 then (Inr (Error ''Balance changed, try again''), d1)
                    else
                      (let latest = latestResult (spin result);
                           m = (case latest of None \<Rightarrow> 0 | Some l \<Rightarrow> matches l);
                           pt = map_option playerTicket latest;
                           ht = map_option resultTicket latest
                       in (case insertSpin (id_col plr) (totalBet (spin result))
                                  (totalPayout (spin result)) (netResult (spin result)) m pt ht d1 of
                             Inl e \<Rightarrow> (Inl e, d)
                           | Inr d2 \<Rightarrow>
                               (Inr (Ok (serializePlayer (players d2 address)) (spin result)), d2))))))"

text \<open>
  The settlement as the route handler runs it: \<open>atomicSpin(address, (player) =>
  spinFullTicket({ player, ticket, amount, currency }))\<close>.
\<close>

definition settleWager :: "string \<Rightarrow> ticket \<Rightarrow> real \<Rightarrow> int \<Rightarrow> rng \<Rightarrow> db \<Rightarrow> (exn + spin_response) \<times> db" where
  "settleWager address tkt amount cur g d =
     atomicSpin address (\<lambda>plr. spinFullTicket plr tkt amount cur g) d"

section \<open>Example inputs\<close>

text \<open>Concrete tickets, a player and a store, used to run the model.\<close>

definition exampleTicket :: ticket where
  "exampleTicket =
     \<lparr>traits = [\<lparr>quadrant = 0, color = 0, symbol = 0\<rparr>, \<lparr>quadrant = 1, color = 0, symbol = 0\<rparr>,
                \<lparr>quadrant = 2, color = 0, symbol = 0\<rparr>, \<lparr>quadrant = 3, color = 0, symbol = 0\<rparr>],
      special = Some 1\<rparr>"

definition exampleOutcome :: ticket where
  "exampleOutcome =
     \<lparr>traits = [\<lparr>quadrant = 0, color = 0, symbol = 1\<rparr>, \<lparr>quadrant = 1, color = 0, symbol = 0\<rparr>,
                \<lparr>quadrant = 2, color = 3, symbol = 0\<rparr>, \<lparr>quadrant = 3, color = 0, symbol = 0\<rparr>],
      special = Some 0\<rparr>"

definition examplePlayer :: player_rec where
  "examplePlayer =
     \<lparr>id_col = 1, eth_address = ''0xabc'', balance_wwxrp = Some 1000, activity_score_bps = 0\<rparr>"

definition exampleDb :: db where
  "exampleDb = \<lparr>players = [''0xabc'' \<mapsto> examplePlayer], spins = []\<rparr>"

text \<open>A ticket with a rare color in the first quadrant, the outcome drawn when every
  draw is 70, and a weight table whose first weight equals the total weight.\<close>

definition exampleRareTicket :: ticket where
  "exampleRareTicket =
     \<lparr>traits = [\<lparr>quadrant = 0, color = 7, symbol = 0\<rparr>, \<lparr>quadrant = 1, color = 0, symbol = 0\<rparr>,
                \<lparr>quadrant = 2, color = 0, symbol = 0\<rparr>, \<lparr>quadrant = 3, color = 0, symbol = 0\<rparr>],
      special = Some 1\<rparr>"



section \<open>Weighted bucketing\<close>

lemma weightedBucket_table:
  "weightedBucket r =
     (let v = jsrem r 75 in
      if v < 10 then 0 else if v < 20 then 1 else if v < 30 then 2 else if v < 40 then 3
      else if v < 49 then 4 else if v < 58 then 5 else if v < 67 then 6 else 7)"
  by (simp add: weightedBucket_def BUCKET_WEIGHTS_def TOTAL_WEIGHT_def Let_def)

lemma jsrem_75_upper: "jsrem r 75 < 75"
proof -
  have m: "\<bar>r\<bar> mod 75 < 75" "0 \<le> \<bar>r\<bar> mod 75" by simp_all
  show ?thesis
  proof (cases "r < 0")
    case True
    then show ?thesis using m by (simp add: jsrem_def)
  next
    case False
    then show ?thesis using m by (cases "r = 0") (simp_all add: jsrem_def)
  qed
qed

lemma jsrem_nonneg: "0 \<le> r \<Longrightarrow> jsrem r 75 = r mod 75"
  by (cases "r = 0") (simp_all add: jsrem_def)

lemma cumulativeWeight_values:
  "cumulativeWeight 0 = 10" "cumulativeWeight (Suc 0) = 20" "cumulativeWeight 2 = 30"
  "cumulativeWeight 3 = 40" "cumulativeWeight 4 = 49" "cumulativeWeight 5 = 58"
  "cumulativeWeight 6 = 67" "cumulativeWeight 7 = 75"
  by (simp_all add: cumulativeWeight_def BUCKET_WEIGHTS_def eval_nat_numeral)

lemma upto7:
  "(k::nat) \<le> 7 \<Longrightarrow> k = 0 \<or> k = 1 \<or> k = 2 \<or> k = 3 \<or> k = 4 \<or> k = 5 \<or> k = 6 \<or> k = 7"
  by arith

lemma all_less_Suc_iff: "(\<forall>j<Suc n. P j) = ((\<forall>j<n. P j) \<and> P n)"
  by (auto simp: less_Suc_eq)

lemma all_less_numeral:
  "(\<forall>j<(1::nat). P j) = P 0"
  "(\<forall>j<(2::nat). P j) = (P 0 \<and> P 1)"
  "(\<forall>j<(3::nat). P j) = (P 0 \<and> P 1 \<and> P 2)"
  "(\<forall>j<(4::nat). P j) = (P 0 \<and> P 1 \<and> P 2 \<and> P 3)"
  "(\<forall>j<(5::nat). P j) = (P 0 \<and> P 1 \<and> P 2 \<and> P 3 \<and> P 4)"
  "(\<forall>j<(6::nat). P j) = (P 0 \<and> P 1 \<and> P 2 \<and> P 3 \<and> P 4 \<and> P 5)"
  "(\<forall>j<(7::nat). P j) = (P 0 \<and> P 1 \<and> P 2 \<and> P 3 \<and> P 4 \<and> P 5 \<and> P 6)"
proof -
  have n: "(1::nat) = Suc 0" "(2::nat) = Suc 1" "(3::nat) = Suc 2" "(4::nat) = Suc 3"
    "(5::nat) = Suc 4" "(6::nat) = Suc 5" "(7::nat) = Suc 6" by simp_all
  show a1: "(\<forall>j<(1::nat). P j) = P 0" by simp
  show a2: "(\<forall>j<(2::nat). P j) = (P 0 \<and> P 1)"
    unfolding n(2) all_less_Suc_iff a1 ..
  show a3: "(\<forall>j<(3::nat). P j) = (P 0 \<and> P 1 \<and> P 2)"
    unfolding n(3) all_less_Suc_iff a2 by (simp add: conj_assoc)
  show a4: "(\<forall>j<(4::nat). P j) = (P 0 \<and> P 1 \<and> P 2 \<and> P 3)"
    unfolding n(4) all_less_Suc_iff a3 by (simp add: conj_assoc)
  show a5: "(\<forall>j<(5::nat). P j) = (P 0 \<and> P 1 \<and> P 2 \<and> P 3 \<and> P 4)"
    unfolding n(5) all_less_Suc_iff a4 by (simp add: conj_assoc)
  show a6: "(\<forall>j<(6::nat). P j) = (P 0 \<and> P 1 \<and> P 2 \<and> P 3 \<and> P 4 \<and> P 5)"
    unfolding n(6) all_less_Suc_iff a5 by (simp add: conj_assoc)
  show "(\<forall>j<(7::nat). P j) = (P 0 \<and> P 1 \<and> P 2 \<and> P 3 \<and> P 4 \<and> P 5 \<and> P 6)"
    unfolding n(7) all_less_Suc_iff a6 by (simp add: conj_assoc)
qed

lemma first_bucket:
  assumes "k \<le> 7"
  shows "weightedBucket r = k \<longleftrightarrow>
           (jsrem r 75 < cumulativeWeight k \<and> (\<forall>j<k. cumulativeWeight j \<le> jsrem r 75))"
proof -
  have u: "jsrem r 75 < 75" by (rule jsrem_75_upper)
  consider "k = 0" | "k = 1" | "k = 2" | "k = 3" | "k = 4" | "k = 5" | "k = 6" | "k = 7"
    using upto7[OF assms] by blast
  then show ?thesis
  proof cases
    case 1 then show ?thesis
      by (simp add: weightedBucket_table Let_def cumulativeWeight_values)
  next
    case 2 then show ?thesis
      by (simp add: weightedBucket_table Let_def cumulativeWeight_values all_less_numeral)
  next
    case 3 then show ?thesis
      by (simp add: weightedBucket_table Let_def cumulativeWeight_values all_less_numeral)
  next
    case 4 then show ?thesis
      by (simp add: weightedBucket_table Let_def cumulativeWeight_values all_less_numeral)
  next
    case 5 then show ?thesis
      by (simp add: weightedBucket_table Let_def cumulativeWeight_values all_less_numeral)
  next
    case 6 then show ?thesis
      by (simp add: weightedBucket_table Let_def cumulativeWeight_values all_less_numeral)
  next
    case 7 then show ?thesis
      by (simp add: weightedBucket_table Let_def cumulativeWeight_values all_less_numeral)
  next
    case 8 then show ?thesis
      using u by (simp add: weightedBucket_table Let_def cumulativeWeight_values all_less_numeral)
  qed
qed

text \<open>
  C7. For every integer draw, \<open>weightedBucket\<close> reduces the draw with the remainder
  operator by the total weight 75 (for a non-negative draw, the draw modulo 75) and
  returns the first category, in index order, whose cumulative weight exceeds the
  residue. The result is a category in 0..7, and it is 7 exactly for the residues 67
  to 74; the residue is always below 75, so the fallback after the loop is never
  reached.
\<close>

theorem weightedBucket_first_exceeding:
  "weightedBucket r \<le> 7
   \<and> (\<forall>k\<le>7. weightedBucket r = k \<longleftrightarrow>
         (jsrem r TOTAL_WEIGHT < cumulativeWeight k
          \<and> (\<forall>j<k. cumulativeWeight j \<le> jsrem r TOTAL_WEIGHT)))
   \<and> (weightedBucket r = 7 \<longleftrightarrow> 67 \<le> jsrem r TOTAL_WEIGHT \<and> jsrem r TOTAL_WEIGHT \<le> 74)
   \<and> jsrem r TOTAL_WEIGHT < cumulativeWeight 7
   \<and> (0 \<le> r \<longrightarrow> jsrem r TOTAL_WEIGHT = r mod 75)
   \<and> BUCKET_WEIGHTS = [10, 10, 10, 10, 9, 9, 9, 8]
   \<and> cumulativeWeight 7 = TOTAL_WEIGHT"
proof -
  have a: "weightedBucket r \<le> 7"
    by (simp add: weightedBucket_table Let_def)
  have b: "\<forall>k\<le>7. weightedBucket r = k \<longleftrightarrow>
         (jsrem r TOTAL_WEIGHT < cumulativeWeight k
          \<and> (\<forall>j<k. cumulativeWeight j \<le> jsrem r TOTAL_WEIGHT))"
    unfolding TOTAL_WEIGHT_def using first_bucket by blast
  have c: "weightedBucket r = 7 \<longleftrightarrow> 67 \<le> jsrem r TOTAL_WEIGHT \<and> jsrem r TOTAL_WEIGHT \<le> 74"
    unfolding TOTAL_WEIGHT_def using jsrem_75_upper[of r]
    by (simp add: weightedBucket_table Let_def)
  have d: "jsrem r TOTAL_WEIGHT < cumulativeWeight 7"
    unfolding TOTAL_WEIGHT_def using jsrem_75_upper[of r] by (simp add: cumulativeWeight_values)
  have e: "0 \<le> r \<longrightarrow> jsrem r TOTAL_WEIGHT = r mod 75"
    unfolding TOTAL_WEIGHT_def using jsrem_nonneg[of r] by simp
  have f: "BUCKET_WEIGHTS = [10, 10, 10, 10, 9, 9, 9, 8]" "cumulativeWeight 7 = TOTAL_WEIGHT"
    by (simp_all add: BUCKET_WEIGHTS_def cumulativeWeight_values TOTAL_WEIGHT_def)
  show ?thesis
    using a b c d e f by (intro conjI)
qed

theorem weightedBucket_first_exceeding_witness:
  "weightedBucket 70 = 7 \<and> jsrem 70 TOTAL_WEIGHT = 70 \<and> cumulativeWeight 6 \<le> 70
   \<and> weightedBucket 66 = 6 \<and> weightedBucket 141 = 6 \<and> weightedBucket (- 5) = 0"
proof -
  have r: "jsrem 70 TOTAL_WEIGHT = 70" "jsrem 66 75 = 66" "jsrem 141 75 = 66" "jsrem (- 5) 75 = - 5"
    by (simp_all add: jsrem_def TOTAL_WEIGHT_def)
  from weightedBucket_first_exceeding[of 70]
  have "weightedBucket 70 = 7 \<longleftrightarrow> 67 \<le> jsrem 70 TOTAL_WEIGHT \<and> jsrem 70 TOTAL_WEIGHT \<le> 74"
    by (elim conjE)
  then have "weightedBucket 70 = 7" by (simp add: r)
  moreover have "weightedBucket 66 = 6" "weightedBucket 141 = 6" "weightedBucket (- 5) = 0"
    by (simp_all add: weightedBucket_table Let_def r)
  ultimately show ?thesis
    by (simp add: r cumulativeWeight_values)
qed

section \<open>Base return curve\<close>

text \<open>The three interpolated segments of \<open>calculateRoi\<close>, with the constants unfolded.\<close>

lemma calculateRoi_low: "s \<le> 0 \<Longrightarrow> calculateRoi s c = 9000"
  by (simp add: calculateRoi_def MIN_SCORE_def ROI_MIN_def)

lemma calculateRoi_seg1:
  "0 < s \<Longrightarrow> s \<le> 7500 \<Longrightarrow>
   calculateRoi s c = 9000 + \<lfloor>500 * ((real_of_int s / 7500) * (real_of_int s / 7500))\<rfloor>"
  by (simp add: calculateRoi_def MIN_SCORE_def MID_SCORE_def ROI_MIN_def ROI_MID_def Let_def)

lemma calculateRoi_seg2:
  "7500 < s \<Longrightarrow> s \<le> 25500 \<Longrightarrow>
   calculateRoi s c = 9500 + \<lfloor>450 * (real_of_int (s - 7500) / 18000)\<rfloor>"
  by (simp add: calculateRoi_def MIN_SCORE_def MID_SCORE_def HIGH_SCORE_def ROI_MID_def
      ROI_HIGH_def Let_def)

lemma calculateRoi_seg3:
  "25500 < s \<Longrightarrow> s \<le> 35500 \<Longrightarrow>
   calculateRoi s c = 9950 + \<lfloor>40 * (real_of_int (s - 25500) / 10000)\<rfloor>"
  by (simp add: calculateRoi_def MIN_SCORE_def MID_SCORE_def HIGH_SCORE_def MAX_SCORE_def
      ROI_HIGH_def ROI_MAX_def Let_def)

lemma calculateRoi_high: "35500 < s \<Longrightarrow> calculateRoi s c = 9990"
  by (simp add: calculateRoi_def MIN_SCORE_def MID_SCORE_def HIGH_SCORE_def MAX_SCORE_def
      ROI_MAX_def)

text \<open>Each segment stays between its two anchors.\<close>

lemma seg1_range:
  assumes "0 < s" "s \<le> 7500"
  shows "9000 \<le> calculateRoi s c \<and> calculateRoi s c \<le> 9500"
proof -
  let ?p = "real_of_int s / 7500"
  have p: "0 \<le> ?p" "?p \<le> 1" using assms by simp_all
  have "?p * ?p \<le> 1 * 1" using p by (intro mult_mono) simp_all
  then have hi: "500 * (?p * ?p) \<le> 500" by simp
  have lo: "0 \<le> 500 * (?p * ?p)" using p by simp
  have "0 \<le> \<lfloor>500 * (?p * ?p)\<rfloor>" using lo by simp
  moreover have "\<lfloor>500 * (?p * ?p)\<rfloor> \<le> 500" using hi by (simp add: floor_le_iff)
  ultimately show ?thesis using calculateRoi_seg1[OF assms, of c] by simp
qed

lemma seg2_range:
  assumes "7500 < s" "s \<le> 25500"
  shows "9500 \<le> calculateRoi s c \<and> calculateRoi s c \<le> 9950"
proof -
  let ?p = "real_of_int (s - 7500) / 18000"
  have p: "0 \<le> ?p" "?p \<le> 1" using assms by simp_all
  have "0 \<le> \<lfloor>450 * ?p\<rfloor>" using p by simp
  moreover have "\<lfloor>450 * ?p\<rfloor> \<le> 450" using p by (simp add: floor_le_iff)
  ultimately show ?thesis using calculateRoi_seg2[OF assms, of c] by simp
qed

lemma seg3_range:
  assumes "25500 < s" "s \<le> 35500"
  shows "9950 \<le> calculateRoi s c \<and> calculateRoi s c \<le> 9990"
proof -
  let ?p = "real_of_int (s - 25500) / 10000"
  have p: "0 \<le> ?p" "?p \<le> 1" using assms by simp_all
  have "0 \<le> \<lfloor>40 * ?p\<rfloor>" using p by simp
  moreover have "\<lfloor>40 * ?p\<rfloor> \<le> 40" using p by (simp add: floor_le_iff)
  ultimately show ?thesis using calculateRoi_seg3[OF assms, of c] by simp
qed

text \<open>Within a segment the curve is non-decreasing, since \<open>floor\<close> is monotone.\<close>

lemma seg1_mono:
  assumes "0 < s" "s \<le> t" "t \<le> 7500"
  shows "calculateRoi s c \<le> calculateRoi t c"
proof -
  let ?p = "real_of_int s / 7500" and ?q = "real_of_int t / 7500"
  have "0 \<le> ?p" "?p \<le> ?q" using assms by simp_all
  then have "?p * ?p \<le> ?q * ?q" by (intro mult_mono) simp_all
  then have "\<lfloor>500 * (?p * ?p)\<rfloor> \<le> \<lfloor>500 * (?q * ?q)\<rfloor>" by (intro floor_mono) simp
  then show ?thesis
    using calculateRoi_seg1[of s c] calculateRoi_seg1[of t c] assms by simp
qed

lemma seg2_mono:
  assumes "7500 < s" "s \<le> t" "t \<le> 25500"
  shows "calculateRoi s c \<le> calculateRoi t c"
proof -
  have "\<lfloor>450 * (real_of_int (s - 7500) / 18000)\<rfloor> \<le> \<lfloor>450 * (real_of_int (t - 7500) / 18000)\<rfloor>"
    using assms by (intro floor_mono) simp
  then show ?thesis
    using calculateRoi_seg2[of s c] calculateRoi_seg2[of t c] assms by simp
qed

lemma seg3_mono:
  assumes "25500 < s" "s \<le> t" "t \<le> 35500"
  shows "calculateRoi s c \<le> calculateRoi t c"
proof -
  have "\<lfloor>40 * (real_of_int (s - 25500) / 10000)\<rfloor> \<le> \<lfloor>40 * (real_of_int (t - 25500) / 10000)\<rfloor>"
    using assms by (intro floor_mono) simp
  then show ?thesis
    using calculateRoi_seg3[of s c] calculateRoi_seg3[of t c] assms by simp
qed

lemma calculateRoi_range: "9000 \<le> calculateRoi s c \<and> calculateRoi s c \<le> 9990"
proof -
  consider "s \<le> 0" | "0 < s" "s \<le> 7500" | "7500 < s" "s \<le> 25500"
    | "25500 < s" "s \<le> 35500" | "35500 < s" by linarith
  then show ?thesis
  proof cases
    case 1 then show ?thesis by (simp add: calculateRoi_low)
  next
    case 2 then show ?thesis using seg1_range[of s c] by simp
  next
    case 3 then show ?thesis using seg2_range[of s c] by simp
  next
    case 4 then show ?thesis using seg3_range[of s c] by simp
  next
    case 5 then show ?thesis by (simp add: calculateRoi_high)
  qed
qed

lemma calculateRoi_mono:
  assumes "s \<le> t"
  shows "calculateRoi s c \<le> calculateRoi t c"
proof -
  consider "s \<le> 0" | "0 < s" "s \<le> 7500" | "7500 < s" "s \<le> 25500"
    | "25500 < s" "s \<le> 35500" | "35500 < s" by linarith
  then show ?thesis
  proof cases
    case 1
    then show ?thesis using calculateRoi_range[of t c] by (simp add: calculateRoi_low)
  next
    case 2
    consider "t \<le> 7500" | "7500 < t" "t \<le> 25500" | "25500 < t" "t \<le> 35500" | "35500 < t"
      by linarith
    then show ?thesis
    proof cases
      case 1 then show ?thesis using seg1_mono[of s t c] 2 assms by simp
    next
      case 2 then show ?thesis using seg1_range[of s c] seg2_range[of t c] \<open>0 < s\<close> \<open>s \<le> 7500\<close> by simp
    next
      case 3 then show ?thesis using seg1_range[of s c] seg3_range[of t c] \<open>0 < s\<close> \<open>s \<le> 7500\<close> by simp
    next
      case 4 then show ?thesis using calculateRoi_range[of s c] by (simp add: calculateRoi_high)
    qed
  next
    case 3
    consider "t \<le> 25500" | "25500 < t" "t \<le> 35500" | "35500 < t" by linarith
    then show ?thesis
    proof cases
      case 1 then show ?thesis using seg2_mono[of s t c] 3 assms by simp
    next
      case 2 then show ?thesis using seg2_range[of s c] seg3_range[of t c] 3 by simp
    next
      case 3 then show ?thesis using calculateRoi_range[of s c] by (simp add: calculateRoi_high)
    qed
  next
    case 4
    consider "t \<le> 35500" | "35500 < t" by linarith
    then show ?thesis
    proof cases
      case 1 then show ?thesis using seg3_mono[of s t c] 4 assms by simp
    next
      case 2 then show ?thesis using calculateRoi_range[of s c] by (simp add: calculateRoi_high)
    qed
  next
    case 5
    then have "35500 < t" using assms by simp
    then show ?thesis using 5 by (simp add: calculateRoi_high)
  qed
qed

text \<open>
  C3. For activity scores in the legal domain 0..35500 and any currency, the base
  return rate of the four-segment curve is non-decreasing in the score and lies
  between 9000 and 9990 basis points.
\<close>

theorem calculateRoi_monotone_bounded:
  assumes "MIN_SCORE \<le> s" and "s \<le> t" and "t \<le> MAX_SCORE"
  shows "calculateRoi s c \<le> calculateRoi t c
         \<and> ROI_MIN \<le> calculateRoi s c \<and> calculateRoi s c \<le> ROI_MAX
         \<and> ROI_MIN \<le> calculateRoi t c \<and> calculateRoi t c \<le> ROI_MAX"
  using calculateRoi_mono[OF assms(2), of c] calculateRoi_range[of s c] calculateRoi_range[of t c]
  by (simp add: ROI_MIN_def ROI_MAX_def)

theorem calculateRoi_monotone_bounded_witness:
  "MIN_SCORE \<le> 7400 \<and> (7400::int) \<le> 7600 \<and> 7600 \<le> MAX_SCORE
   \<and> calculateRoi 7400 3 = 9486 \<and> calculateRoi 7600 3 = 9502
   \<and> calculateRoi 7400 3 \<le> calculateRoi 7600 3
   \<and> ROI_MIN \<le> calculateRoi 7400 3 \<and> calculateRoi 7600 3 \<le> ROI_MAX"
proof -
  have h: "MIN_SCORE \<le> 7400" "(7400::int) \<le> 7600" "7600 \<le> MAX_SCORE"
    by (simp_all add: MIN_SCORE_def MAX_SCORE_def)
  have v: "calculateRoi 7400 3 = 9486" "calculateRoi 7600 3 = 9502"
    by (simp_all add: calculateRoi_seg1 calculateRoi_seg2)
  show ?thesis
    using calculateRoi_monotone_bounded[OF h, of 3] h v by simp
qed

section \<open>The return curve under rounding\<close>

text \<open>
  The bounds and the monotonicity of the curve do not depend on exact arithmetic: they
  hold for every rounding of the intermediate results that is monotone and exact at
  0, 1 and the three segment spans 500, 450 and 40, as round-to-nearest on doubles is.
\<close>

lemma calculateRoi_rounded_exact: "calculateRoi_rounded (\<lambda>x. x) s c = calculateRoi s c"
  by (simp add: calculateRoi_rounded_def calculateRoi_def)

lemma rounded_segment:
  fixes rnd :: "real \<Rightarrow> real"
  assumes mono: "\<And>x y. x \<le> y \<Longrightarrow> rnd x \<le> rnd y"
    and fx: "rnd 0 = 0" "rnd k = k"
    and k: "k = of_int n" "0 \<le> k"
    and pq: "0 \<le> p \<and> p \<le> q \<and> q \<le> 1"
  shows "0 \<le> \<lfloor>rnd (k * p)\<rfloor> \<and> \<lfloor>rnd (k * p)\<rfloor> \<le> \<lfloor>rnd (k * q)\<rfloor> \<and> \<lfloor>rnd (k * q)\<rfloor> \<le> n"
proof -
  have "0 \<le> k * p" using k(2) pq by simp
  from mono[OF this] have a: "0 \<le> rnd (k * p)" by (simp add: fx(1))
  have "k * p \<le> k * q" using k(2) pq by (simp add: mult_left_mono)
  from mono[OF this] have b: "rnd (k * p) \<le> rnd (k * q)" .
  have "k * q \<le> k * 1" using k(2) pq by (intro mult_left_mono) simp_all
  then have "k * q \<le> k" by simp
  from mono[OF this] have "rnd (k * q) \<le> rnd k" .
  then have "rnd (k * q) \<le> k" unfolding fx(2) .
  then have c: "rnd (k * q) \<le> of_int n" unfolding k(1) .
  have "0 \<le> \<lfloor>rnd (k * p)\<rfloor>" using a by simp
  moreover have "\<lfloor>rnd (k * p)\<rfloor> \<le> \<lfloor>rnd (k * q)\<rfloor>" using b by (rule floor_mono)
  moreover have "\<lfloor>rnd (k * q)\<rfloor> \<le> n" using c by (simp add: floor_le_iff)
  ultimately show ?thesis by blast
qed

lemma rounded_progress:
  fixes rnd :: "real \<Rightarrow> real"
  assumes mono: "\<And>x y. x \<le> y \<Longrightarrow> rnd x \<le> rnd y"
    and fx: "rnd 0 = 0" "rnd 1 = 1"
    and "0 \<le> x" "x \<le> y" "y \<le> 1"
  shows "0 \<le> rnd x \<and> rnd x \<le> rnd y \<and> rnd y \<le> 1"
  using mono[of 0 x] mono[of x y] mono[of y 1] assms(4,5,6) by (simp add: fx)

lemma calculateRoi_rounded_monotone_bounded:
  fixes rnd :: "real \<Rightarrow> real"
  assumes mono: "\<And>x y. x \<le> y \<Longrightarrow> rnd x \<le> rnd y"
    and fx: "rnd 0 = 0" "rnd 1 = 1" "rnd 500 = 500" "rnd 450 = 450" "rnd 40 = 40"
    and le: "s \<le> t"
  shows "calculateRoi_rounded rnd s c \<le> calculateRoi_rounded rnd t c
         \<and> 9000 \<le> calculateRoi_rounded rnd s c \<and> calculateRoi_rounded rnd t c \<le> 9990"
proof -
  have seg1: "0 \<le> \<lfloor>rnd (500 * rnd (rnd (real_of_int u / 7500) * rnd (real_of_int u / 7500)))\<rfloor>
      \<and> \<lfloor>rnd (500 * rnd (rnd (real_of_int u / 7500) * rnd (real_of_int u / 7500)))\<rfloor>
          \<le> \<lfloor>rnd (500 * rnd (rnd (real_of_int v / 7500) * rnd (real_of_int v / 7500)))\<rfloor>
      \<and> \<lfloor>rnd (500 * rnd (rnd (real_of_int v / 7500) * rnd (real_of_int v / 7500)))\<rfloor> \<le> 500"
    if "0 \<le> u" "u \<le> v" "v \<le> 7500" for u v :: int
  proof -
    have p: "0 \<le> rnd (real_of_int u / 7500) \<and> rnd (real_of_int u / 7500) \<le> rnd (real_of_int v / 7500)
        \<and> rnd (real_of_int v / 7500) \<le> 1"
      using that by (intro rounded_progress[OF mono fx(1,2)]) simp_all
    then have sq: "0 \<le> rnd (real_of_int u / 7500) * rnd (real_of_int u / 7500)"
      "rnd (real_of_int u / 7500) * rnd (real_of_int u / 7500)
         \<le> rnd (real_of_int v / 7500) * rnd (real_of_int v / 7500)"
      "rnd (real_of_int v / 7500) * rnd (real_of_int v / 7500) \<le> 1"
      by (simp_all add: mult_mono mult_le_one)
    have q: "0 \<le> rnd (rnd (real_of_int u / 7500) * rnd (real_of_int u / 7500))
        \<and> rnd (rnd (real_of_int u / 7500) * rnd (real_of_int u / 7500))
            \<le> rnd (rnd (real_of_int v / 7500) * rnd (real_of_int v / 7500))
        \<and> rnd (rnd (real_of_int v / 7500) * rnd (real_of_int v / 7500)) \<le> 1"
      using sq by (intro rounded_progress[OF mono fx(1,2)])
    show ?thesis
      using rounded_segment[where n = 500, OF mono fx(1) fx(3) _ _ q] by simp
  qed
  have seg: "0 \<le> \<lfloor>rnd (k * rnd (real_of_int (u - lo) / w))\<rfloor>
      \<and> \<lfloor>rnd (k * rnd (real_of_int (u - lo) / w))\<rfloor>
          \<le> \<lfloor>rnd (k * rnd (real_of_int (v - lo) / w))\<rfloor>
      \<and> \<lfloor>rnd (k * rnd (real_of_int (v - lo) / w))\<rfloor> \<le> n"
    if "lo \<le> u" "u \<le> v" "real_of_int v \<le> real_of_int lo + w" "0 < w" "0 \<le> k" "rnd k = k"
      "k = of_int n"
    for u v lo n :: int and w k :: real
  proof -
    have "real_of_int (u - lo) / w \<le> real_of_int (v - lo) / w"
      using that by (simp add: divide_right_mono)
    moreover have "real_of_int (v - lo) / w \<le> 1" using that by simp
    moreover have "0 \<le> real_of_int (u - lo) / w" using that by simp
    ultimately have "0 \<le> rnd (real_of_int (u - lo) / w)
        \<and> rnd (real_of_int (u - lo) / w) \<le> rnd (real_of_int (v - lo) / w)
        \<and> rnd (real_of_int (v - lo) / w) \<le> 1"
      by (intro rounded_progress[OF mono fx(1,2)])
    then show ?thesis
      using rounded_segment[OF mono fx(1) that(6) that(7) that(5)] by blast
  qed
  have s2: "0 \<le> \<lfloor>rnd (450 * rnd (real_of_int (u - 7500) / 18000))\<rfloor>
      \<and> \<lfloor>rnd (450 * rnd (real_of_int (u - 7500) / 18000))\<rfloor>
          \<le> \<lfloor>rnd (450 * rnd (real_of_int (v - 7500) / 18000))\<rfloor>
      \<and> \<lfloor>rnd (450 * rnd (real_of_int (v - 7500) / 18000))\<rfloor> \<le> 450"
    if "7500 \<le> u" "u \<le> v" "v \<le> 25500" for u v :: int
    by (rule seg[where n = 450]) (use that fx(4) in simp_all)
  have s3: "0 \<le> \<lfloor>rnd (40 * rnd (real_of_int (u - 25500) / 10000))\<rfloor>
      \<and> \<lfloor>rnd (40 * rnd (real_of_int (u - 25500) / 10000))\<rfloor>
          \<le> \<lfloor>rnd (40 * rnd (real_of_int (v - 25500) / 10000))\<rfloor>
      \<and> \<lfloor>rnd (40 * rnd (real_of_int (v - 25500) / 10000))\<rfloor> \<le> 40"
    if "25500 \<le> u" "u \<le> v" "v \<le> 35500" for u v :: int
    by (rule seg[where n = 40]) (use that fx(5) in simp_all)
  have v1: "calculateRoi_rounded rnd u c =
      9000 + \<lfloor>rnd (500 * rnd (rnd (real_of_int u / 7500) * rnd (real_of_int u / 7500)))\<rfloor>"
    if "0 < u" "u \<le> 7500" for u
    using that by (simp add: calculateRoi_rounded_def MIN_SCORE_def MID_SCORE_def ROI_MIN_def
        ROI_MID_def Let_def)
  have v2: "calculateRoi_rounded rnd u c =
      9500 + \<lfloor>rnd (450 * rnd (real_of_int (u - 7500) / 18000))\<rfloor>"
    if "7500 < u" "u \<le> 25500" for u
    using that by (simp add: calculateRoi_rounded_def MIN_SCORE_def MID_SCORE_def HIGH_SCORE_def
        ROI_MID_def ROI_HIGH_def Let_def)
  have v3: "calculateRoi_rounded rnd u c =
      9950 + \<lfloor>rnd (40 * rnd (real_of_int (u - 25500) / 10000))\<rfloor>"
    if "25500 < u" "u \<le> 35500" for u
    using that by (simp add: calculateRoi_rounded_def MIN_SCORE_def MID_SCORE_def HIGH_SCORE_def
        MAX_SCORE_def ROI_HIGH_def ROI_MAX_def Let_def)
  have v0: "calculateRoi_rounded rnd u c = 9000" if "u \<le> 0" for u
    using that by (simp add: calculateRoi_rounded_def MIN_SCORE_def ROI_MIN_def)
  have v4: "calculateRoi_rounded rnd u c = 9990" if "35500 < u" for u
    using that by (simp add: calculateRoi_rounded_def MIN_SCORE_def MID_SCORE_def HIGH_SCORE_def
        MAX_SCORE_def ROI_MAX_def)
  have r1: "9000 \<le> calculateRoi_rounded rnd u c \<and> calculateRoi_rounded rnd u c \<le> 9500"
    if "0 < u" "u \<le> 7500" for u
    using seg1[of u u] that by (simp add: v1)
  have r2: "9500 \<le> calculateRoi_rounded rnd u c \<and> calculateRoi_rounded rnd u c \<le> 9950"
    if "7500 < u" "u \<le> 25500" for u
    using s2[of u u] that by (simp add: v2)
  have r3: "9950 \<le> calculateRoi_rounded rnd u c \<and> calculateRoi_rounded rnd u c \<le> 9990"
    if "25500 < u" "u \<le> 35500" for u
    using s3[of u u] that by (simp add: v3)
  have rng: "9000 \<le> calculateRoi_rounded rnd u c \<and> calculateRoi_rounded rnd u c \<le> 9990" for u
  proof -
    consider "u \<le> 0" | "0 < u" "u \<le> 7500" | "7500 < u" "u \<le> 25500"
      | "25500 < u" "u \<le> 35500" | "35500 < u" by linarith
    then show ?thesis
    proof cases
      case 1 then show ?thesis by (simp add: v0)
    next
      case 2 then show ?thesis using r1[of u] by simp
    next
      case 3 then show ?thesis using r2[of u] by simp
    next
      case 4 then show ?thesis using r3[of u] by simp
    next
      case 5 then show ?thesis by (simp add: v4)
    qed
  qed
  have "calculateRoi_rounded rnd s c \<le> calculateRoi_rounded rnd t c"
  proof -
    consider "s \<le> 0" | "0 < s" "t \<le> 7500" | "0 < s" "s \<le> 7500" "7500 < t"
      | "7500 < s" "t \<le> 25500" | "7500 < s" "s \<le> 25500" "25500 < t"
      | "25500 < s" "t \<le> 35500" | "25500 < s" "s \<le> 35500" "35500 < t" | "35500 < s"
      by linarith
    then show ?thesis
    proof cases
      case 1 then show ?thesis using rng[of t] by (simp add: v0)
    next
      case 2 then show ?thesis using seg1[of s t] le by (simp add: v1)
    next
      case 3
      consider "t \<le> 25500" | "25500 < t" "t \<le> 35500" | "35500 < t" by linarith
      then show ?thesis
      proof cases
        case 1 then show ?thesis using r1[of s] r2[of t] 3 by simp
      next
        case 2 then show ?thesis using r1[of s] r3[of t] 3 by simp
      next
        case 3 then show ?thesis using rng[of s] by (simp add: v4)
      qed
    next
      case 4 then show ?thesis using s2[of s t] le by (simp add: v2)
    next
      case 5
      consider "t \<le> 35500" | "35500 < t" by linarith
      then show ?thesis
      proof cases
        case 1 then show ?thesis using r2[of s] r3[of t] 5 by simp
      next
        case 2 then show ?thesis using rng[of s] by (simp add: v4)
      qed
    next
      case 6 then show ?thesis using s3[of s t] le by (simp add: v3)
    next
      case 7 then show ?thesis using rng[of s] by (simp add: v4)
    next
      case 8
      then have "35500 < t" using le by simp
      then show ?thesis using 8 by (simp add: v4)
    qed
  qed
  then show ?thesis using rng[of s] rng[of t] by simp
qed

section \<open>Match scorer\<close>

lemma upt_0_4: "[0 ..< 4] = [0, 1, 2, 3]"
  by (simp add: upt_rec)

lemma countMatches_loop_acc:
  "countMatches_loop ps rs qs m = Inr k \<Longrightarrow> m \<le> k \<and> k \<le> m + 2 * length qs"
proof (induction qs arbitrary: m)
  case Nil
  then show ?case by simp
next
  case (Cons q qs)
  then show ?case
    by (fastforce split: option.splits if_splits)
qed

lemma countMatches_le_8: "countMatches p r = Inr m \<Longrightarrow> m \<le> 8"
  using countMatches_loop_acc[of "traits p" "traits r" "[0 ..< 4]" 0 m]
  by (simp add: countMatches_def)

lemma countMatches_four:
  assumes "length (traits p) = 4" "length (traits r) = 4"
  shows "countMatches p r =
           Inr (length (filter (\<lambda>q. color (traits p ! q) = color (traits r ! q)) [0 ..< 4])
                + length (filter (\<lambda>q. symbol (traits p ! q) = symbol (traits r ! q)) [0 ..< 4]))"
  using assms by (simp add: countMatches_def upt_0_4 elemAt_def)

lemma payoutMultiplier_jackpot: "snd (payoutMultiplier m sp) = (m = 8 \<and> sp)"
  by (simp add: payoutMultiplier_def Let_def)

lemma spinFullTicket_result:
  assumes "spinFullTicket plr tkt amount cur g = Inr (Some out)"
  shows "\<exists>res. results (spin out) = [res]
           \<and> countMatches (playerTicket res) (resultTicket res) = Inr (matches res)
           \<and> specialMatch res = specialsMatch (special (playerTicket res)) (special (resultTicket res))
           \<and> (payoutMultiplierBps res, isJackpot res) = payoutMultiplier (matches res) (specialMatch res)
           \<and> hasJackpot (spin out) = isJackpot res
           \<and> playerTicket res = \<lparr>traits = normalizeTraits (traits tkt), special = special tkt\<rparr>
           \<and> resultTicket res = fst (generateRandomTicket False g)"
  using assms
  by (auto simp: spinFullTicket_def Let_def split: if_splits sum.splits prod.splits)


lemma generateRandomTicket_length: "length (traits (fst (generateRandomTicket fp g))) = 4"
  by (simp add: generateRandomTicket_def Let_def split: prod.splits)

lemma normalizeTraits_length: "length (normalizeTraits ts) = length ts"
  by (simp add: normalizeTraits_def)

lemma countMatches_defined:
  assumes "4 \<le> length (traits p)" "4 \<le> length (traits r)"
  shows "\<exists>m. countMatches p r = Inr m"
proof -
  have "0 < length (traits p)" "1 < length (traits p)" "2 < length (traits p)" "3 < length (traits p)"
    "0 < length (traits r)" "1 < length (traits r)" "2 < length (traits r)" "3 < length (traits r)"
    using assms by auto
  then show ?thesis
    by (simp add: countMatches_def upt_0_4 elemAt_def)
qed

lemma spinFullTicket_settles:
  assumes "\<not> jslt (balance_wwxrp plr) amount"
    "\<not> jslt (special tkt) 1" "\<not> jsgt (special tkt) 3"
    "4 \<le> length (traits tkt)"
  shows "\<exists>out. spinFullTicket plr tkt amount cur g = Inr (Some out)"
proof -
  let ?p = "\<lparr>traits = normalizeTraits (traits tkt), special = special tkt\<rparr>"
  let ?r = "fst (generateRandomTicket False g)"
  have "\<exists>m. countMatches ?p ?r = Inr m"
    using assms(4) by (intro countMatches_defined) (simp_all add: normalizeTraits_length generateRandomTicket_length)
  then obtain m where "countMatches ?p ?r = Inr m" ..
  then show ?thesis
    using assms(1-3) by (simp add: spinFullTicket_def Let_def split: prod.splits)
qed

text \<open>
  C5. For two tickets of four quadrants the match count is the number of quadrants whose
  color agrees plus the number whose symbol agrees, and it is at most 8;
  \<open>specialsMatch\<close> holds exactly when both specials are numbers that are nonzero and
  equal; and in every
  settlement that \<open>spinFullTicket\<close> returns, the single result scores the normalized
  player ticket against the generated outcome, its match count is at most 8, and
  \<open>isJackpot\<close> (and \<open>hasJackpot\<close>) holds exactly when the match count is 8 and the
  special matches.
\<close>

theorem match_count_and_jackpot:
  "(length (traits p) = 4 \<and> length (traits r) = 4 \<longrightarrow>
      countMatches p r =
        Inr (length (filter (\<lambda>q. color (traits p ! q) = color (traits r ! q)) [0 ..< 4])
             + length (filter (\<lambda>q. symbol (traits p ! q) = symbol (traits r ! q)) [0 ..< 4]))
      \<and> length (filter (\<lambda>q. color (traits p ! q) = color (traits r ! q)) [0 ..< 4])
          + length (filter (\<lambda>q. symbol (traits p ! q) = symbol (traits r ! q)) [0 ..< 4]) \<le> 8)
   \<and> (specialsMatch a b \<longleftrightarrow> (\<exists>x y. a = Some x \<and> b = Some y \<and> x \<noteq> 0 \<and> y \<noteq> 0 \<and> x = y))
   \<and> (spinFullTicket plr tkt amount cur g = Inr (Some out) \<longrightarrow>
        (\<exists>res. results (spin out) = [res]
           \<and> playerTicket res = \<lparr>traits = normalizeTraits (traits tkt), special = special tkt\<rparr>
           \<and> resultTicket res = fst (generateRandomTicket False g)
           \<and> countMatches (playerTicket res) (resultTicket res) = Inr (matches res)
           \<and> matches res \<le> 8
           \<and> specialMatch res = specialsMatch (special (playerTicket res)) (special (resultTicket res))
           \<and> (isJackpot res \<longleftrightarrow> matches res = 8 \<and> specialMatch res)
           \<and> hasJackpot (spin out) = isJackpot res))"
proof (intro conjI impI)
  assume len: "length (traits p) = 4 \<and> length (traits r) = 4"
  then show c: "countMatches p r =
        Inr (length (filter (\<lambda>q. color (traits p ! q) = color (traits r ! q)) [0 ..< 4])
             + length (filter (\<lambda>q. symbol (traits p ! q) = symbol (traits r ! q)) [0 ..< 4]))"
    by (simp add: countMatches_four)
  show "length (filter (\<lambda>q. color (traits p ! q) = color (traits r ! q)) [0 ..< 4])
          + length (filter (\<lambda>q. symbol (traits p ! q) = symbol (traits r ! q)) [0 ..< 4]) \<le> 8"
    using countMatches_le_8[OF c] .
next
  show "specialsMatch a b \<longleftrightarrow> (\<exists>x y. a = Some x \<and> b = Some y \<and> x \<noteq> 0 \<and> y \<noteq> 0 \<and> x = y)"
    by (auto simp: specialsMatch_def split: option.splits)
next
  assume "spinFullTicket plr tkt amount cur g = Inr (Some out)"
  from spinFullTicket_result[OF this] obtain res where res:
    "results (spin out) = [res]"
    "countMatches (playerTicket res) (resultTicket res) = Inr (matches res)"
    "specialMatch res = specialsMatch (special (playerTicket res)) (special (resultTicket res))"
    "(payoutMultiplierBps res, isJackpot res) = payoutMultiplier (matches res) (specialMatch res)"
    "hasJackpot (spin out) = isJackpot res"
    "playerTicket res = \<lparr>traits = normalizeTraits (traits tkt), special = special tkt\<rparr>"
    "resultTicket res = fst (generateRandomTicket False g)"
    by blast
  have j: "isJackpot res \<longleftrightarrow> matches res = 8 \<and> specialMatch res"
    using payoutMultiplier_jackpot[of "matches res" "specialMatch res"] res(4)[symmetric] by simp
  have m: "matches res \<le> 8" using countMatches_le_8[OF res(2)] .
  show "\<exists>res. results (spin out) = [res]
           \<and> playerTicket res = \<lparr>traits = normalizeTraits (traits tkt), special = special tkt\<rparr>
           \<and> resultTicket res = fst (generateRandomTicket False g)
           \<and> countMatches (playerTicket res) (resultTicket res) = Inr (matches res)
           \<and> matches res \<le> 8
           \<and> specialMatch res = specialsMatch (special (playerTicket res)) (special (resultTicket res))
           \<and> (isJackpot res \<longleftrightarrow> matches res = 8 \<and> specialMatch res)
           \<and> hasJackpot (spin out) = isJackpot res"
    using res(1,2,3,5,6,7) j m by blast
qed


lemma generate_all_zero:
  "fst (generateRandomTicket False (\<lambda>i. 0)) = exampleTicket"
  by (simp add: generateRandomTicket_def randomTrait_def randomWeightedBucket_def randomInt_def
      weightedBucket_def BUCKET_WEIGHTS_def Let_def jsrem_def TOTAL_WEIGHT_def exampleTicket_def)

lemma normalize_exampleTicket:
  "\<lparr>traits = normalizeTraits (traits exampleTicket), special = special exampleTicket\<rparr> = exampleTicket"
  by (simp add: exampleTicket_def normalizeTraits_def upt_rec)

theorem match_count_and_jackpot_witness:
  "length (traits exampleTicket) = 4 \<and> length (traits exampleOutcome) = 4
   \<and> countMatches exampleTicket exampleOutcome = Inr 6
   \<and> (\<exists>out res. spinFullTicket examplePlayer exampleTicket 100 3 (\<lambda>i. 0) = Inr (Some out)
          \<and> results (spin out) = [res] \<and> matches res = 8 \<and> specialMatch res \<and> isJackpot res)"
proof -
  have len: "length (traits exampleTicket) = 4 \<and> length (traits exampleOutcome) = 4"
    by (simp add: exampleTicket_def exampleOutcome_def)
  have "\<exists>out. spinFullTicket examplePlayer exampleTicket 100 3 (\<lambda>i. 0) = Inr (Some out)"
    by (rule spinFullTicket_settles) (simp_all add: examplePlayer_def exampleTicket_def jslt_def jsgt_def)
  then obtain out where out: "spinFullTicket examplePlayer exampleTicket 100 3 (\<lambda>i. 0) = Inr (Some out)" ..
  note inst = match_count_and_jackpot[of exampleTicket exampleOutcome "Some 1" "Some 1" examplePlayer
      exampleTicket 100 3 "\<lambda>i. 0" out]
  from inst len have "countMatches exampleTicket exampleOutcome =
        Inr (length (filter (\<lambda>q. color (traits exampleTicket ! q) = color (traits exampleOutcome ! q)) [0 ..< 4])
             + length (filter (\<lambda>q. symbol (traits exampleTicket ! q) = symbol (traits exampleOutcome ! q)) [0 ..< 4]))"
    by blast
  then have six: "countMatches exampleTicket exampleOutcome = Inr 6"
    by (simp add: exampleTicket_def exampleOutcome_def upt_0_4)
  from inst out obtain res where res: "results (spin out) = [res]"
    "playerTicket res = \<lparr>traits = normalizeTraits (traits exampleTicket), special = special exampleTicket\<rparr>"
    "resultTicket res = fst (generateRandomTicket False (\<lambda>i. 0))"
    "countMatches (playerTicket res) (resultTicket res) = Inr (matches res)"
    "specialMatch res = specialsMatch (special (playerTicket res)) (special (resultTicket res))"
    "isJackpot res \<longleftrightarrow> matches res = 8 \<and> specialMatch res"
    by blast
  have "countMatches exampleTicket exampleTicket = Inr 8"
    by (simp add: countMatches_def exampleTicket_def upt_0_4 elemAt_def)
  then have m: "matches res = 8"
    using res(4) by (simp add: res(2,3) generate_all_zero normalize_exampleTicket)
  have sp: "specialMatch res"
    by (simp add: res(5) res(2,3) generate_all_zero normalize_exampleTicket specialsMatch_def
        exampleTicket_def)
  show ?thesis
    using len six out res(1) m sp res(6) by blast
qed

section \<open>Payout multiplier\<close>

lemma payout_table_values:
  "FULL_TICKET_PAYOUTS_BPS ! 0 = 0" "FULL_TICKET_PAYOUTS_BPS ! 1 = 0"
  "FULL_TICKET_PAYOUTS_BPS ! 2 = 189" "FULL_TICKET_PAYOUTS_BPS ! 3 = 500"
  "FULL_TICKET_PAYOUTS_BPS ! 4 = 1778" "FULL_TICKET_PAYOUTS_BPS ! 5 = 6667"
  "FULL_TICKET_PAYOUTS_BPS ! 6 = 31100" "FULL_TICKET_PAYOUTS_BPS ! 7 = 155600"
  "FULL_TICKET_PAYOUTS_BPS ! 8 = 355600"
  by (simp_all add: FULL_TICKET_PAYOUTS_BPS_def)

lemma upto8:
  "(m::nat) \<le> 8 \<Longrightarrow> m = 0 \<or> m = 1 \<or> m = 2 \<or> m = 3 \<or> m = 4 \<or> m = 5 \<or> m = 6 \<or> m = 7 \<or> m = 8"
  by arith

lemma payoutMultiplier_cases:
  assumes "m \<le> 8"
  shows "payoutMultiplier m sp =
           (if m = 8 \<and> sp then (JACKPOT_MULTIPLIER_BPS, True)
            else if sp then (max (FULL_TICKET_PAYOUTS_BPS ! (m + 1)) SPECIAL_MATCH_MIN_MULTIPLIER_BPS, False)
            else (FULL_TICKET_PAYOUTS_BPS ! m, False))"
proof -
  have "m \<noteq> 8 \<Longrightarrow> min (m + 1) 8 = m + 1" using assms by simp
  then show ?thesis by (simp add: payoutMultiplier_def Let_def)
qed

lemma payout_without_special:
  "map (\<lambda>m. payoutMultiplier m False) [0, 1, 2, 3, 4, 5, 6, 7, 8] =
     [(0, False), (0, False), (189, False), (500, False), (1778, False), (6667, False),
      (31100, False), (155600, False), (355600, False)]"
  by (simp add: payoutMultiplier_def FULL_TICKET_PAYOUTS_BPS_def)

lemma payout_with_special:
  "map (\<lambda>m. payoutMultiplier m True) [0, 1, 2, 3, 4, 5, 6, 7, 8] =
     [(400, False), (400, False), (500, False), (1778, False), (6667, False), (31100, False),
      (155600, False), (355600, False), (10000000, True)]"
  by (simp add: payoutMultiplier_def FULL_TICKET_PAYOUTS_BPS_def Let_def
      SPECIAL_MATCH_MIN_MULTIPLIER_BPS_def JACKPOT_MULTIPLIER_BPS_def)

lemma payout_table_increasing:
  assumes "2 \<le> i" "i < j" "j \<le> 8"
  shows "FULL_TICKET_PAYOUTS_BPS ! i < FULL_TICKET_PAYOUTS_BPS ! j"
proof -
  have i: "i = 2 \<or> i = 3 \<or> i = 4 \<or> i = 5 \<or> i = 6 \<or> i = 7" using assms by arith
  have j: "j = 3 \<or> j = 4 \<or> j = 5 \<or> j = 6 \<or> j = 7 \<or> j = 8" using assms by arith
  show ?thesis
    using i j assms(2) by (elim disjE) (simp_all add: payout_table_values)
qed

text \<open>
  C4, as the code has it. For a match count \<open>m\<close> in 0..8: 8 matches with a special match
  give the jackpot multiplier 10000000 and set \<open>isJackpot\<close>; a special match with any
  other \<open>m\<close> gives the greater of the table entry of the tier above, \<open>m + 1\<close>, and the
  minimum special multiplier 400; no special match gives the table entry for \<open>m\<close>.
  The table is 0 for 0 and 1 matches and strictly increasing from 2 to 8 matches; its
  entry for 8 matches is 355600, below the jackpot multiplier, which is reserved for 8
  matches with a special match. Every settlement of \<open>spinFullTicket\<close> carries the
  multiplier and the jackpot flag so determined.
\<close>

theorem payout_multiplier_lookup:
  "(m \<le> 8 \<longrightarrow>
      payoutMultiplier m sp =
        (if m = 8 \<and> sp then (JACKPOT_MULTIPLIER_BPS, True)
         else if sp then (max (FULL_TICKET_PAYOUTS_BPS ! (m + 1)) SPECIAL_MATCH_MIN_MULTIPLIER_BPS, False)
         else (FULL_TICKET_PAYOUTS_BPS ! m, False)))
   \<and> map (\<lambda>m. payoutMultiplier m False) [0, 1, 2, 3, 4, 5, 6, 7, 8] =
        [(0, False), (0, False), (189, False), (500, False), (1778, False), (6667, False),
         (31100, False), (155600, False), (355600, False)]
   \<and> map (\<lambda>m. payoutMultiplier m True) [0, 1, 2, 3, 4, 5, 6, 7, 8] =
        [(400, False), (400, False), (500, False), (1778, False), (6667, False), (31100, False),
         (155600, False), (355600, False), (10000000, True)]
   \<and> (2 \<le> i \<and> i < j \<and> j \<le> 8 \<longrightarrow> FULL_TICKET_PAYOUTS_BPS ! i < FULL_TICKET_PAYOUTS_BPS ! j)
   \<and> FULL_TICKET_PAYOUTS_BPS ! 8 < JACKPOT_MULTIPLIER_BPS
   \<and> (spinFullTicket plr tkt amount cur g = Inr (Some out) \<longrightarrow>
        (\<exists>res. results (spin out) = [res] \<and> matches res \<le> 8
           \<and> (payoutMultiplierBps res, isJackpot res)
               = payoutMultiplier (matches res) (specialMatch res)))"
proof (intro conjI impI)
  assume "m \<le> 8"
  then show "payoutMultiplier m sp =
        (if m = 8 \<and> sp then (JACKPOT_MULTIPLIER_BPS, True)
         else if sp then (max (FULL_TICKET_PAYOUTS_BPS ! (m + 1)) SPECIAL_MATCH_MIN_MULTIPLIER_BPS, False)
         else (FULL_TICKET_PAYOUTS_BPS ! m, False))"
    by (rule payoutMultiplier_cases)
next
  show "map (\<lambda>m. payoutMultiplier m False) [0, 1, 2, 3, 4, 5, 6, 7, 8] =
        [(0, False), (0, False), (189, False), (500, False), (1778, False), (6667, False),
         (31100, False), (155600, False), (355600, False)]"
    by (rule payout_without_special)
next
  show "map (\<lambda>m. payoutMultiplier m True) [0, 1, 2, 3, 4, 5, 6, 7, 8] =
        [(400, False), (400, False), (500, False), (1778, False), (6667, False), (31100, False),
         (155600, False), (355600, False), (10000000, True)]"
    by (rule payout_with_special)
next
  assume "2 \<le> i \<and> i < j \<and> j \<le> 8"
  then show "FULL_TICKET_PAYOUTS_BPS ! i < FULL_TICKET_PAYOUTS_BPS ! j"
    using payout_table_increasing[of i j] by simp
next
  show "FULL_TICKET_PAYOUTS_BPS ! 8 < JACKPOT_MULTIPLIER_BPS"
    by (simp add: payout_table_values JACKPOT_MULTIPLIER_BPS_def)
next
  assume "spinFullTicket plr tkt amount cur g = Inr (Some out)"
  from spinFullTicket_result[OF this] obtain res where res:
    "results (spin out) = [res]"
    "countMatches (playerTicket res) (resultTicket res) = Inr (matches res)"
    "(payoutMultiplierBps res, isJackpot res) = payoutMultiplier (matches res) (specialMatch res)"
    by blast
  show "\<exists>res. results (spin out) = [res] \<and> matches res \<le> 8
           \<and> (payoutMultiplierBps res, isJackpot res)
               = payoutMultiplier (matches res) (specialMatch res)"
    using res(1,3) countMatches_le_8[OF res(2)] by blast
qed

theorem payout_multiplier_lookup_witness:
  "(3::nat) \<le> 8 \<and> payoutMultiplier 3 True = (1778, False)
   \<and> (2::nat) \<le> 5 \<and> (5::nat) < 6 \<and> (6::nat) \<le> 8
   \<and> FULL_TICKET_PAYOUTS_BPS ! 5 < FULL_TICKET_PAYOUTS_BPS ! 6
   \<and> (\<exists>out res. spinFullTicket examplePlayer exampleTicket 100 3 (\<lambda>i. 0) = Inr (Some out)
          \<and> results (spin out) = [res] \<and> matches res \<le> 8
          \<and> (payoutMultiplierBps res, isJackpot res)
              = payoutMultiplier (matches res) (specialMatch res))"
proof -
  have "\<exists>out. spinFullTicket examplePlayer exampleTicket 100 3 (\<lambda>i. 0) = Inr (Some out)"
    by (rule spinFullTicket_settles) (simp_all add: examplePlayer_def exampleTicket_def jslt_def jsgt_def)
  then obtain out where out: "spinFullTicket examplePlayer exampleTicket 100 3 (\<lambda>i. 0) = Inr (Some out)" ..
  note inst = payout_multiplier_lookup[of 3 True 5 6 examplePlayer exampleTicket 100 3 "\<lambda>i. 0" out]
  have a: "payoutMultiplier 3 True = (1778, False)"
    using inst by (simp add: payout_table_values SPECIAL_MATCH_MIN_MULTIPLIER_BPS_def)
  have b: "FULL_TICKET_PAYOUTS_BPS ! 5 < FULL_TICKET_PAYOUTS_BPS ! 6"
    using inst by simp
  from inst out obtain res where "results (spin out) = [res]" "matches res \<le> 8"
    "(payoutMultiplierBps res, isJackpot res) = payoutMultiplier (matches res) (specialMatch res)"
    by blast
  with out a b show ?thesis by auto
qed

theorem payout_table_top_is_not_jackpot:
  "fst (payoutMultiplier 8 False) = FULL_TICKET_PAYOUTS_BPS ! 8
   \<and> FULL_TICKET_PAYOUTS_BPS ! 8 = 355600
   \<and> JACKPOT_MULTIPLIER_BPS = 10000000
   \<and> fst (payoutMultiplier 8 False) \<noteq> JACKPOT_MULTIPLIER_BPS"
  by (simp add: payoutMultiplier_def payout_table_values JACKPOT_MULTIPLIER_BPS_def)

section \<open>Rejected settlements\<close>

lemma serializePlayer_Some: "serializePlayer (Some r) = Some r"
  by (simp add: serializePlayer_def)

lemma spinFullTicket_insufficient:
  "jslt (balance_wwxrp plr) amount \<Longrightarrow> spinFullTicket plr tkt amount cur g = Inr None"
  by (simp add: spinFullTicket_def)


lemma atomicSpin_null:
  assumes "players d address = Some row" "spinFn row = Inr None"
  shows "atomicSpin address spinFn d = (Inr (Error ''Insufficient balance''), d)"
  using assms by (simp add: atomicSpin_def serializePlayer_Some)

text \<open>
  C2. When the stored balance is below the stake, \<open>spinFullTicket\<close> returns null on
  the player snapshot, the settlement transaction answers with the insufficient-balance
  error, and the store is the one before the call: no ledger row is appended and the
  stored balance and activity score are unchanged.
\<close>

theorem insufficient_balance_rejected:
  assumes "players d address = Some row" and "balance_wwxrp row = Some b" and "b < amount"
  shows "spinFullTicket row tkt amount cur g = Inr None
         \<and> settleWager address tkt amount cur g d = (Inr (Error ''Insufficient balance''), d)
         \<and> spins (snd (settleWager address tkt amount cur g d)) = spins d
         \<and> players (snd (settleWager address tkt amount cur g d)) address = Some row"
proof -
  have n: "spinFullTicket row tkt amount cur g = Inr None"
    using assms(2,3) by (intro spinFullTicket_insufficient) (simp add: jslt_def)
  have s: "settleWager address tkt amount cur g d = (Inr (Error ''Insufficient balance''), d)"
    unfolding settleWager_def using assms(1) n by (rule atomicSpin_null)
  show ?thesis using n s assms(1) by simp
qed

theorem insufficient_balance_rejected_witness:
  "players (exampleDb\<lparr>players := [''0xabc'' \<mapsto> examplePlayer\<lparr>balance_wwxrp := Some 50\<rparr>]\<rparr>) ''0xabc''
     = Some (examplePlayer\<lparr>balance_wwxrp := Some 50\<rparr>)
   \<and> balance_wwxrp (examplePlayer\<lparr>balance_wwxrp := Some 50\<rparr>) = Some 50 \<and> (50::real) < 100
   \<and> settleWager ''0xabc'' exampleTicket 100 3 (\<lambda>i. 0)
        (exampleDb\<lparr>players := [''0xabc'' \<mapsto> examplePlayer\<lparr>balance_wwxrp := Some 50\<rparr>]\<rparr>)
      = (Inr (Error ''Insufficient balance''),
         exampleDb\<lparr>players := [''0xabc'' \<mapsto> examplePlayer\<lparr>balance_wwxrp := Some 50\<rparr>]\<rparr>)
   \<and> spins (snd (settleWager ''0xabc'' exampleTicket 100 3 (\<lambda>i. 0)
        (exampleDb\<lparr>players := [''0xabc'' \<mapsto> examplePlayer\<lparr>balance_wwxrp := Some 50\<rparr>]\<rparr>))) = []"
proof -
  let ?d = "exampleDb\<lparr>players := [''0xabc'' \<mapsto> examplePlayer\<lparr>balance_wwxrp := Some 50\<rparr>]\<rparr>"
  let ?row = "examplePlayer\<lparr>balance_wwxrp := Some 50\<rparr>"
  have h: "players ?d ''0xabc'' = Some ?row" "balance_wwxrp ?row = Some 50" "(50::real) < 100"
    by simp_all
  show ?thesis
    using insufficient_balance_rejected[OF h, of exampleTicket 3 "\<lambda>i. 0"] h
    by (simp add: exampleDb_def)
qed

section \<open>EV normalization\<close>













lemma calculateEvNormalization_exampleTicket: "calculateEvNormalization exampleTicket = Some 1"
  by (simp add: calculateEvNormalization_def calculateEvNormalization_on_def exampleTicket_def
      weightRatio_def weightAt_def BUCKET_WEIGHTS_def TOTAL_WEIGHT_def jsmul_def jsdiv_def
      power_divide)

lemma calculateEvNormalization_exampleRareTicket:
  "calculateEvNormalization exampleRareTicket = Some (5 / 4)"
  by (simp add: calculateEvNormalization_def calculateEvNormalization_on_def exampleRareTicket_def
      weightRatio_def weightAt_def BUCKET_WEIGHTS_def TOTAL_WEIGHT_def jsmul_def jsdiv_def
      power_divide)

lemma perOutcome_rare_vs_zero:
  "calculateEvNormalization_perOutcome exampleRareTicket exampleTicket = Inr (Some (130 / 119))"
  by (simp add: calculateEvNormalization_perOutcome_def calculateEvNormalization_perOutcome_on_def
      exampleRareTicket_def exampleTicket_def upt_0_4 elemAt_def perOutcomeNum_def perOutcomeDen_def
      weightAt_def BUCKET_WEIGHTS_def TOTAL_WEIGHT_def jsdiv_def)



text \<open>
  C8. The two formulations are not numerically equivalent: for the valid player ticket
  \<open>exampleRareTicket\<close> and the outcome drawn when every draw is 0, the per-outcome
  factor is 130/119 and the ticket-only factor is 5/4.
\<close>

theorem ev_formulations_differ:
  "\<exists>p g a b. isValidTicket p
     \<and> calculateEvNormalization_perOutcome p (fst (generateRandomTicket False g)) = Inr (Some a)
     \<and> calculateEvNormalization p = Some b
     \<and> a \<noteq> b"
proof -
  have v: "isValidTicket exampleRareTicket"
    by (simp add: isValidTicket_def isValidTrait_def exampleRareTicket_def jslt_def jsgt_def)
  have "calculateEvNormalization_perOutcome exampleRareTicket (fst (generateRandomTicket False (\<lambda>i. 0)))
          = Inr (Some (130 / 119))"
    by (simp add: generate_all_zero perOutcome_rare_vs_zero)
  moreover have "(130 / 119 :: real) \<noteq> 5 / 4" by simp
  ultimately show ?thesis
    using v calculateEvNormalization_exampleRareTicket by blast
qed

section \<open>Committed settlements\<close>
















section \<open>Special marker out of range\<close>





end
